theory Spec2Isabelle
  imports Main "HOL-Library.Char_ord" "HOL-Library.List_Lexorder" "HOL-Library.Product_Lexorder"
begin

section \<open>Strings\<close>

text \<open>
  Python strings are modelled as \<open>string\<close>, restricted to ASCII: the predicates below
  are Python's \<^verbatim>\<open>str.isspace\<close>, \<^verbatim>\<open>str.lower\<close>, \<^verbatim>\<open>str.upper\<close> and the regular
  expression classes \<^verbatim>\<open>\s\<close> and \<^verbatim>\<open>\d\<close> on code points below 128. Characters outside
  ASCII are left alone by the case conversions and are neither spaces nor digits here.
\<close>

definition is_space :: "char \<Rightarrow> bool" where
  "is_space c = (let n = (of_char c :: nat) in (9 \<le> n \<and> n \<le> 13) \<or> (28 \<le> n \<and> n \<le> 32))"

definition is_digit :: "char \<Rightarrow> bool" where
  "is_digit c = (let n = (of_char c :: nat) in 48 \<le> n \<and> n \<le> 57)"

definition lower_char :: "char \<Rightarrow> char" where
  "lower_char c = (let n = (of_char c :: nat) in if 65 \<le> n \<and> n \<le> 90 then char_of (n + 32) else c)"

definition upper_char :: "char \<Rightarrow> char" where
  "upper_char c = (let n = (of_char c :: nat) in if 97 \<le> n \<and> n \<le> 122 then char_of (n - 32) else c)"

definition lower :: "string \<Rightarrow> string" where
  "lower s = map lower_char s"

definition upper :: "string \<Rightarrow> string" where
  "upper s = map upper_char s"

text \<open>\<^verbatim>\<open>s.strip()\<close>: whitespace removed at both ends.\<close>

definition strip :: "string \<Rightarrow> string" where
  "strip s = rev (dropWhile is_space (rev (dropWhile is_space s)))"

text \<open>\<^verbatim>\<open>re.sub(r"\s+", " ", s)\<close>: every maximal run of whitespace becomes one space.\<close>

function collapse_ws :: "string \<Rightarrow> string" where
  "collapse_ws [] = []"
| "collapse_ws (c # cs) =
     (if is_space c then CHR '' '' # collapse_ws (dropWhile is_space cs)
      else c # collapse_ws cs)"
  by pat_completeness auto
termination
  by (relation "measure length") (auto simp: less_Suc_eq_le length_dropWhile_le)

text \<open>\<^verbatim>\<open>normalize(s) = re.sub(r"\s+", " ", str(s).strip()).lower()\<close>\<close>

definition normalize_str :: "string \<Rightarrow> string" where
  "normalize_str s = lower (collapse_ws (strip s))"

text \<open>\<^verbatim>\<open>s.startswith(p)\<close> and \<^verbatim>\<open>s.endswith(p)\<close>.\<close>

definition startswith :: "string \<Rightarrow> string \<Rightarrow> bool" where
  "startswith s p = (take (length p) s = p)"

definition endswith :: "string \<Rightarrow> string \<Rightarrow> bool" where
  "endswith s p = (length p \<le> length s \<and> drop (length s - length p) s = p)"

text \<open>\<^verbatim>\<open>sub in s\<close> on strings: \<open>sub\<close> occurs in \<open>s\<close> as a contiguous block.\<close>

fun py_in :: "string \<Rightarrow> string \<Rightarrow> bool" where
  "py_in sub [] = (sub = [])"
| "py_in sub (c # cs) = (startswith (c # cs) sub \<or> py_in sub cs)"

section \<open>Column Matcher\<close>

text \<open>
  \<^verbatim>\<open>POSSIBLE_COLS\<close>, the alias lists per logical field. Column labels are modelled as
  strings (what \<^verbatim>\<open>str(label)\<close> gives).
\<close>

definition POSSIBLE_COLS :: "(string \<times> string list) list" where
  "POSSIBLE_COLS =
    [(''id'', [''340B ID'', ''340BID'', ''ID'']),
     (''entity'', [''Entity Name'', ''Covered Entity Name'', ''Covered Entity'', ''Entity'']),
     (''pharmacy'', [''Pharmacy Name'', ''Pharmacy'', ''Doing Business As'', ''DBA'']),
     (''begin'', [''Contract Begin Date'', ''Begin Date'', ''Contract Start Date'', ''Start Date'']),
     (''term'', [''Contract Term Date'', ''Termination Date'', ''Contract End Date'', ''End Date'',
                 ''Term Date'']),
     (''city'', [''City'']),
     (''state'', [''State'']),
     (''zip'', [''Zip'', ''ZIP'', ''Zip Code'', ''Postal Code''])]"

text \<open>\<^verbatim>\<open>POSSIBLE_COLS[k]\<close>; the source only reads keys that are present.\<close>

definition possible_cols :: "string \<Rightarrow> string list" where
  "possible_cols k = (case map_of POSSIBLE_COLS k of Some cands \<Rightarrow> cands | None \<Rightarrow> [])"

text \<open>
  \<^verbatim>\<open>norm_map = {normalize(c): c for c in existing_cols}\<close>: a dict comprehension stores
  the keys in order, so a later column with the same normalized label replaces an earlier one.
\<close>

definition norm_map :: "string list \<Rightarrow> (string \<rightharpoonup> string)" where
  "norm_map existing_cols = fold (\<lambda>c m. m(normalize_str c \<mapsto> c)) existing_cols Map.empty"

text \<open>The first loop of \<^verbatim>\<open>best_match_column\<close>: candidates in order, exact lookup.\<close>

fun exact_pass :: "(string \<rightharpoonup> string) \<Rightarrow> string list \<Rightarrow> string option" where
  "exact_pass m [] = None"
| "exact_pass m (cand # candidates) =
     (case m (normalize_str cand) of
        Some c \<Rightarrow> Some c
      | None \<Rightarrow> exact_pass m candidates)"

text \<open>The second loop: columns in order, any candidate contained in the normalized label.\<close>

fun substring_pass :: "string list \<Rightarrow> string list \<Rightarrow> string option" where
  "substring_pass [] candidates = None"
| "substring_pass (col # cols) candidates =
     (if list_ex (\<lambda>cand. py_in (normalize_str cand) (normalize_str col)) candidates then Some col
      else substring_pass cols candidates)"

definition best_match_column :: "string list \<Rightarrow> string list \<Rightarrow> string option" where
  "best_match_column existing_cols candidates =
     (case exact_pass (norm_map existing_cols) candidates of
        Some c \<Rightarrow> Some c
      | None \<Rightarrow> substring_pass existing_cols candidates)"

text \<open>
  The Column Matcher as the specification words it: the exact pass picks the first
  candidate whose normalized form is the normalized label of some observed column, and
  answers with the last observed column carrying that normalized label; the fallback
  answers with the first observed column whose normalized label contains the normalized
  form of some candidate.
\<close>

definition spec_exact_match :: "string list \<Rightarrow> string list \<Rightarrow> string option" where
  "spec_exact_match observed candidates =
     (case find (\<lambda>cand. normalize_str cand \<in> normalize_str ` set observed) candidates of
        None \<Rightarrow> None
      | Some cand \<Rightarrow> Some (last (filter (\<lambda>c. normalize_str c = normalize_str cand) observed)))"

definition spec_substring_match :: "string list \<Rightarrow> string list \<Rightarrow> string option" where
  "spec_substring_match observed candidates =
     find (\<lambda>col. \<exists>cand \<in> set candidates. py_in (normalize_str cand) (normalize_str col)) observed"

definition spec_match :: "string list \<Rightarrow> string list \<Rightarrow> string option" where
  "spec_match observed candidates =
     (case spec_exact_match observed candidates of
        Some c \<Rightarrow> Some c
      | None \<Rightarrow> spec_substring_match observed candidates)"

section \<open>Cell values\<close>

text \<open>
  A timestamp is a calendar day (days since 1970-01-01), a time of day in seconds and an
  optional UTC offset in minutes (\<open>None\<close>: no time zone).
\<close>

record timestamp =
  day :: int
  tod :: nat
  tz :: "int option"

text \<open>
  A spreadsheet cell as the reader hands it over: blank (NaN, None and NaT alike), text,
  a whole number, or a date-time. Fractional numbers are outside the model.
\<close>

datatype cell = Blank | Text string | Number int | DateTime timestamp

definition isna :: "cell \<Rightarrow> bool" where
  "isna c = (c = Blank)"

definition notna :: "cell \<Rightarrow> bool" where
  "notna c = (c \<noteq> Blank)"

text \<open>\<^verbatim>\<open>str(x)\<close> of a cell value.\<close>

definition digit_char :: "nat \<Rightarrow> char" where
  "digit_char d = char_of (48 + d)"

fun str_nat :: "nat \<Rightarrow> string" where
  "str_nat n = (if n < 10 then [digit_char n] else str_nat (n div 10) @ [digit_char (n mod 10)])"

declare str_nat.simps [simp del]

definition str_int :: "int \<Rightarrow> string" where
  "str_int i = (if i < 0 then CHR ''-'' # str_nat (nat (- i)) else str_nat (nat i))"

definition zfill :: "nat \<Rightarrow> string \<Rightarrow> string" where
  "zfill w s = replicate (w - length s) CHR ''0'' @ s"

text \<open>Year, month and day of month of a day number (proleptic Gregorian calendar).\<close>

definition civil_from_days :: "int \<Rightarrow> int \<times> nat \<times> nat" where
  "civil_from_days z0 =
     (let z = z0 + 719468;
          era = z div 146097;
          doe = z - era * 146097;
          yoe = (doe - doe div 1460 + doe div 36524 - doe div 146096) div 365;
          doy = doe - (365 * yoe + yoe div 4 - yoe div 100);
          mp = (5 * doy + 2) div 153;
          d = doy - (153 * mp + 2) div 5 + 1;
          m = (if mp < 10 then mp + 3 else mp - 9);
          y = yoe + era * 400 + (if m \<le> 2 then 1 else 0)
      in (y, nat m, nat d))"

definition str_offset :: "int \<Rightarrow> string" where
  "str_offset m =
     (if m < 0 then ''-'' else ''+'') @ zfill 2 (str_nat (nat \<bar>m\<bar> div 60)) @ '':''
       @ zfill 2 (str_nat (nat \<bar>m\<bar> mod 60))"

definition str_timestamp :: "timestamp \<Rightarrow> string" where
  "str_timestamp t =
     (case civil_from_days (day t) of (y, m, d) \<Rightarrow>
        zfill 4 (str_int y) @ ''-'' @ zfill 2 (str_nat m) @ ''-'' @ zfill 2 (str_nat d) @ '' ''
        @ zfill 2 (str_nat (tod t div 3600)) @ '':'' @ zfill 2 (str_nat (tod t div 60 mod 60))
        @ '':'' @ zfill 2 (str_nat (tod t mod 60))
        @ (case tz t of None \<Rightarrow> [] | Some m \<Rightarrow> str_offset m))"

fun py_str :: "cell \<Rightarrow> string" where
  "py_str Blank = ''nan''"
| "py_str (Text s) = s"
| "py_str (Number n) = str_int n"
| "py_str (DateTime t) = str_timestamp t"

section \<open>Header Locator\<close>

text \<open>
  \<^verbatim>\<open>any(normalize(v) == "340b id" for v in row_vals)\<close> with
  \<^verbatim>\<open>row_vals = [str(x) for x in df_like.iloc[i].tolist()]\<close>.
\<close>

definition is_header_row :: "cell list \<Rightarrow> bool" where
  "is_header_row row_cells =
     list_ex (\<lambda>v. normalize_str v = ''340b id'') (map py_str row_cells)"

text \<open>
  \<^verbatim>\<open>for i in range(min(15, len(df_like))): if ...: return i\<close>, then \<^verbatim>\<open>return None\<close>.
\<close>

definition find_header_row :: "cell list list \<Rightarrow> nat option" where
  "find_header_row df_like =
     find (\<lambda>i. is_header_row (df_like ! i)) [0 ..< min 15 (length df_like)]"

text \<open>The header index \<^verbatim>\<open>read_with_auto_header\<close> reads with: the located row, or 3.\<close>

definition hdr_idx :: "cell list list \<Rightarrow> nat" where
  "hdr_idx preview = (case find_header_row preview of None \<Rightarrow> 3 | Some i \<Rightarrow> i)"

section \<open>Tables\<close>

text \<open>
  A DataFrame is its column labels in order and its rows in order; a row gives the cell
  under each label (\<open>Blank\<close> under a label the table does not have). Labels are distinct,
  as the spreadsheet reader makes them.
\<close>

type_synonym row = "string \<Rightarrow> cell"

record frame =
  columns :: "string list"
  rows :: "row list"

definition restrict_row :: "string list \<Rightarrow> row \<Rightarrow> row" where
  "restrict_row labels r = (\<lambda>c. if c \<in> set labels then r c else Blank)"

text \<open>\<^verbatim>\<open>df[label]\<close>, and \<^verbatim>\<open>df[label] = values\<close> (a new label is appended, an old one overwritten).\<close>

definition get_col :: "string \<Rightarrow> frame \<Rightarrow> cell list" where
  "get_col label df = map (\<lambda>r. r label) (rows df)"

definition set_col :: "string \<Rightarrow> cell list \<Rightarrow> frame \<Rightarrow> frame" where
  "set_col label vals df =
     \<lparr>columns = (if label \<in> set (columns df) then columns df else columns df @ [label]),
      rows = map (\<lambda>(r, v). r(label := v)) (zip (rows df) vals)\<rparr>"

text \<open>\<^verbatim>\<open>df[mask]\<close> with a mask computed row by row, and \<^verbatim>\<open>df[labels]\<close>.\<close>

definition select_rows :: "(row \<Rightarrow> bool) \<Rightarrow> frame \<Rightarrow> frame" where
  "select_rows keep df = df\<lparr>rows := filter keep (rows df)\<rparr>"

definition select_cols :: "string list \<Rightarrow> frame \<Rightarrow> frame" where
  "select_cols labels df = \<lparr>columns = labels, rows = map (restrict_row labels) (rows df)\<rparr>"

text \<open>\<^verbatim>\<open>df.dropna(axis=1, how="all")\<close> and \<^verbatim>\<open>df.dropna(axis=0, how="all")\<close>.\<close>

definition dropna_cols :: "frame \<Rightarrow> frame" where
  "dropna_cols df =
     select_cols (filter (\<lambda>c. list_ex (\<lambda>r. notna (r c)) (rows df)) (columns df)) df"

definition dropna_rows :: "frame \<Rightarrow> frame" where
  "dropna_rows df = select_rows (\<lambda>r. list_ex (\<lambda>c. notna (r c)) (columns df)) df"

text \<open>
  \<^verbatim>\<open>pd.concat(frames, ignore_index=True)\<close>: the union of the labels in first-seen order,
  the rows of the frames one after the other, blank under labels their frame lacks.
\<close>

definition first_seen :: "string list \<Rightarrow> string list" where
  "first_seen labels = rev (remdups (rev labels))"

definition concat_frames :: "frame list \<Rightarrow> frame" where
  "concat_frames frames =
     \<lparr>columns = first_seen (concat (map columns frames)),
      rows = concat (map (\<lambda>df. map (restrict_row (columns df)) (rows df)) frames)\<rparr>"

section \<open>Record Loader\<close>

text \<open>
  A directory entry. Reading a spreadsheet is the library's work, so a workbook is what
  the two \<^verbatim>\<open>pd.read_excel\<close> calls of \<^verbatim>\<open>read_with_auto_header\<close> observe of it: the grid of
  its first sheet (\<open>None\<close> when the file cannot be read), of which
  \<^verbatim>\<open>header=None, nrows=20\<close> gives the first 20 rows, and the table read with a given
  header row (\<open>None\<close> when that read raises).
\<close>

record workbook =
  entry_name :: string
  sheet :: "cell list list option"
  with_header :: "nat \<Rightarrow> frame option"

definition read_with_auto_header :: "workbook \<Rightarrow> frame option" where
  "read_with_auto_header wb =
     (case sheet wb of
        None \<Rightarrow> None
      | Some grid \<Rightarrow>
          (let preview = take 20 grid in
           case with_header wb (hdr_idx preview) of
             None \<Rightarrow> None
           | Some df \<Rightarrow> Some (dropna_rows (dropna_cols df))))"

datatype warning =
    FailedToRead string
  | MissingKeyColumns string "string option" "string option" "string option"

text \<open>Python's truth value of an optional label: \<^verbatim>\<open>None\<close> and \<^verbatim>\<open>""\<close> are false.\<close>

definition truthy :: "string option \<Rightarrow> bool" where
  "truthy c = (case c of None \<Rightarrow> False | Some s \<Rightarrow> s \<noteq> [])"

text \<open>
  Lines 229 to 238: the alias columns and the provenance column are added to the table
  read from the file. \<^verbatim>\<open>os.path.basename(os.path.join(input_dir, f))\<close> is the entry name.
\<close>

definition add_aliases ::
  "string \<Rightarrow> string \<Rightarrow> string \<Rightarrow> string \<Rightarrow> string option \<Rightarrow> string option \<Rightarrow> frame \<Rightarrow> frame" where
  "add_aliases base col_id col_begin col_term col_entity col_pharm df0 =
     (let df = set_col ''ID'' (get_col col_id df0) df0;
          df = set_col ''BeginDate'' (get_col col_begin df) df;
          df = set_col ''TermDate'' (get_col col_term df) df;
          df = (if truthy col_entity then set_col ''EntityName'' (get_col (the col_entity) df) df
                else df);
          df = (if truthy col_pharm then set_col ''PharmacyName'' (get_col (the col_pharm) df) df
                else df)
      in set_col ''source_file'' (replicate (length (rows df)) (Text base)) df)"

text \<open>One turn of the loop over the files: a table, or the warning the file is skipped with.\<close>

definition load_file :: "workbook \<Rightarrow> warning + frame" where
  "load_file f =
     (case read_with_auto_header f of
        None \<Rightarrow> Inl (FailedToRead (entry_name f))
      | Some df \<Rightarrow>
          (let cols = columns df;
               col_id = best_match_column cols (possible_cols ''id'');
               col_begin = best_match_column cols (possible_cols ''begin'');
               col_term = best_match_column cols (possible_cols ''term'');
               col_entity = best_match_column cols (possible_cols ''entity'');
               col_pharm = best_match_column cols (possible_cols ''pharmacy'')
           in if \<not> truthy col_id \<or> \<not> truthy col_begin \<or> \<not> truthy col_term
              then Inl (MissingKeyColumns (entry_name f) col_id col_begin col_term)
              else Inr (add_aliases (entry_name f) (the col_id) (the col_begin) (the col_term)
                          col_entity col_pharm df)))"

fun load_files :: "workbook list \<Rightarrow> warning list \<times> frame list" where
  "load_files [] = ([], [])"
| "load_files (f # files) =
     (case load_files files of (warnings, frames) \<Rightarrow>
        (case load_file f of
           Inl w \<Rightarrow> (w # warnings, frames)
         | Inr df \<Rightarrow> (warnings, df # frames)))"

section \<open>Dates\<close>

text \<open>
  \<^verbatim>\<open>pd.to_datetime(series, errors="coerce")\<close>, cell by cell: a blank stays blank, a
  date-time cell is taken as it is, and text or a number goes to the library's parser
  \<open>parse\<close>, a parameter of the model, whose failure is \<open>None\<close>.
\<close>

definition to_datetime :: "(cell \<Rightarrow> timestamp option) \<Rightarrow> cell \<Rightarrow> timestamp option" where
  "to_datetime parse c =
     (case c of Blank \<Rightarrow> None | DateTime t \<Rightarrow> Some t | _ \<Rightarrow> parse c)"

text \<open>\<^verbatim>\<open>.dt.tz_localize(None)\<close>: the time zone is removed, the wall-clock reading kept.\<close>

definition tz_localize_none :: "timestamp \<Rightarrow> timestamp" where
  "tz_localize_none t = t\<lparr>tz := None\<rparr>"

definition coerce_datetime :: "(cell \<Rightarrow> timestamp option) \<Rightarrow> cell list \<Rightarrow> cell list" where
  "coerce_datetime parse series =
     map (\<lambda>c. case to_datetime parse c of
                 None \<Rightarrow> Blank
               | Some t \<Rightarrow> DateTime (tz_localize_none t)) series"

text \<open>\<^verbatim>\<open>Timestamp.normalize()\<close>: midnight of the same day.\<close>

definition normalize_ts :: "timestamp \<Rightarrow> timestamp" where
  "normalize_ts t = t\<lparr>tod := 0\<rparr>"

text \<open>Comparison of timestamps without time zone.\<close>

definition ts_le :: "timestamp \<Rightarrow> timestamp \<Rightarrow> bool" where
  "ts_le a b = (day a < day b \<or> (day a = day b \<and> tod a \<le> tod b))"

text \<open>
  The reference date (lines 258 to 261): the override parsed and normalized when it is
  given and not empty (\<open>None\<close> when the parser raises), else midnight of the clock's day.
\<close>

definition reference_date ::
  "(cell \<Rightarrow> timestamp option) \<Rightarrow> int \<Rightarrow> string option \<Rightarrow> timestamp option" where
  "reference_date parse clock_day today_override =
     (if truthy today_override then map_option normalize_ts (parse (Text (the today_override)))
      else Some \<lparr>day = clock_day, tod = 0, tz = None\<rparr>)"

section \<open>Root identifiers\<close>

text \<open>
  \<^verbatim>\<open>ROOT_ID_REGEX = re.compile(r"^(DSH|PED)\d+", re.IGNORECASE)\<close>. A literal matches
  letter by letter up to case; a branch is a literal followed by the longest run of
  digits, which must not be empty; the branches are tried in order. The result is the
  matched text, \<^verbatim>\<open>m.group(0)\<close>.
\<close>

fun match_literal :: "string \<Rightarrow> string \<Rightarrow> string option" where
  "match_literal [] s = Some []"
| "match_literal (p # ps) [] = None"
| "match_literal (p # ps) (c # cs) =
     (if lower_char c = lower_char p then map_option ((#) c) (match_literal ps cs) else None)"

definition match_branch :: "string \<Rightarrow> string \<Rightarrow> string option" where
  "match_branch token s =
     (case match_literal token s of
        None \<Rightarrow> None
      | Some m \<Rightarrow>
          (let ds = takeWhile is_digit (drop (length m) s)
           in if ds = [] then None else Some (m @ ds)))"

definition ROOT_ID_REGEX :: "string \<Rightarrow> string option" where
  "ROOT_ID_REGEX s =
     (case match_branch ''DSH'' s of Some m \<Rightarrow> Some m | None \<Rightarrow> match_branch ''PED'' s)"

definition extract_root_id :: "cell \<Rightarrow> string option" where
  "extract_root_id id_val =
     (let s = (case id_val of Text s \<Rightarrow> s | Blank \<Rightarrow> [] | _ \<Rightarrow> py_str id_val)
      in map_option upper (ROOT_ID_REGEX (strip s)))"

text \<open>
  One cell of \<^verbatim>\<open>merged["ID"].astype(str).str.upper().str.strip().apply(extract_root_id)\<close>.
\<close>

definition opt_cell :: "string option \<Rightarrow> cell" where
  "opt_cell v = (case v of None \<Rightarrow> Blank | Some s \<Rightarrow> Text s)"

definition derive_root_id :: "cell \<Rightarrow> string option" where
  "derive_root_id c = extract_root_id (Text (strip (upper (py_str c))))"

text \<open>
  The derivation as the specification words it, for a list of prefix tokens: the
  identifier is upper-cased and trimmed; it matches when some token, compared without
  regard to case, stands at its start and at least one decimal digit follows at once;
  the root identifier is the matched text, upper-cased.
\<close>

definition spec_matches :: "string \<Rightarrow> string \<Rightarrow> bool" where
  "spec_matches token u =
     (length token \<le> length u \<and> lower (take (length token) u) = lower token
      \<and> takeWhile is_digit (drop (length token) u) \<noteq> [])"

definition spec_root_id :: "string list \<Rightarrow> string \<Rightarrow> string option" where
  "spec_root_id tokens ident =
     (let u = strip (upper ident) in
      case find (\<lambda>token. spec_matches token u) tokens of
        None \<Rightarrow> None
      | Some token \<Rightarrow>
          Some (upper (take (length token) u @ takeWhile is_digit (drop (length token) u))))"

section \<open>Pipeline\<close>

datatype error = NoInputFiles | NoUsableData | BadReferenceDate

text \<open>
  \<^verbatim>\<open>[f for f in os.listdir(input_dir) if f.lower().endswith(".xlsx") and not f.startswith("~$")]\<close>
\<close>

definition list_files :: "workbook list \<Rightarrow> workbook list" where
  "list_files entries =
     filter (\<lambda>f. endswith (lower (entry_name f)) ''.xlsx'' \<and> \<not> startswith (entry_name f) ''~$'')
       entries"

text \<open>Lines 245 to 253: concatenation, the two date columns, the root identifier.\<close>

definition merge_frames :: "(cell \<Rightarrow> timestamp option) \<Rightarrow> frame list \<Rightarrow> frame" where
  "merge_frames parse frames =
     (let merged = concat_frames frames;
          merged = set_col ''BeginDate'' (coerce_datetime parse (get_col ''BeginDate'' merged)) merged;
          merged = set_col ''TermDate'' (coerce_datetime parse (get_col ''TermDate'' merged)) merged
      in set_col ''RootID'' (map (\<lambda>c. opt_cell (derive_root_id c)) (get_col ''ID'' merged)) merged)"

text \<open>
  \<^verbatim>\<open>keep_mask = merged["RootID"].notna() & merged["RootID"].str.startswith(prefixes)\<close>
  with \<^verbatim>\<open>prefixes = tuple(p.upper() for p in prefixes)\<close>.
\<close>

fun str_startswith :: "cell \<Rightarrow> string list \<Rightarrow> bool" where
  "str_startswith (Text s) prefixes = list_ex (\<lambda>p. startswith s p) prefixes"
| "str_startswith _ prefixes = False"

definition keep_mask :: "string list \<Rightarrow> row \<Rightarrow> bool" where
  "keep_mask prefixes r =
     (notna (r ''RootID'') \<and> str_startswith (r ''RootID'') (map upper prefixes))"

text \<open>\<^verbatim>\<open>(merged["TermDate"].isna()) | (merged["TermDate"] >= today)\<close>\<close>

fun cell_ge :: "cell \<Rightarrow> timestamp \<Rightarrow> bool" where
  "cell_ge (DateTime t) today = ts_le today t"
| "cell_ge _ today = False"

definition active_mask :: "timestamp \<Rightarrow> row \<Rightarrow> bool" where
  "active_mask today r = (isna (r ''TermDate'') \<or> cell_ge (r ''TermDate'') today)"

text \<open>
  \<^verbatim>\<open>merged.sort_values(by=["RootID", "BeginDate"], ascending=[True, False])\<close>: a stable
  sort on the pair of keys, \<open>RootID\<close> ascending and \<open>BeginDate\<close> descending, blanks last
  in each (\<^verbatim>\<open>na_position="last"\<close>).
\<close>

fun root_key :: "cell \<Rightarrow> nat \<times> string" where
  "root_key (Text s) = (0, s)"
| "root_key _ = (1, [])"

fun begin_key :: "cell \<Rightarrow> nat \<times> int \<times> int" where
  "begin_key (DateTime t) = (0, - day t, - int (tod t))"
| "begin_key _ = (1, 0, 0)"

definition sort_values :: "row list \<Rightarrow> row list" where
  "sort_values rs = sort_key (\<lambda>r. (root_key (r ''RootID''), begin_key (r ''BeginDate''))) rs"

text \<open>\<^verbatim>\<open>drop_duplicates(subset=["RootID"], keep="first")\<close>\<close>

fun drop_duplicates_seen :: "cell list \<Rightarrow> row list \<Rightarrow> row list" where
  "drop_duplicates_seen seen [] = []"
| "drop_duplicates_seen seen (r # rs) =
     (if r ''RootID'' \<in> set seen then drop_duplicates_seen seen rs
      else r # drop_duplicates_seen (r ''RootID'' # seen) rs)"

definition drop_duplicates :: "row list \<Rightarrow> row list" where
  "drop_duplicates rs = drop_duplicates_seen [] rs"

definition dedupe :: "string \<Rightarrow> row list \<Rightarrow> row list" where
  "dedupe dedupe_strategy rs =
     drop_duplicates (if dedupe_strategy = ''latest-begin'' then sort_values rs else rs)"

text \<open>Lines 271 to 283: the columns of the result.\<close>

definition key_fields :: "string list" where
  "key_fields = [''RootID'', ''ID'', ''EntityName'', ''PharmacyName'', ''BeginDate'', ''TermDate'']"

definition select_output :: "bool \<Rightarrow> frame \<Rightarrow> frame" where
  "select_output keep_all_columns deduped =
     (let key_first = filter (\<lambda>c. c \<in> set (columns deduped)) key_fields;
          rest = filter (\<lambda>c. c \<notin> set key_first) (columns deduped)
      in if keep_all_columns then select_cols (key_first @ rest) deduped
         else select_cols key_first deduped)"

text \<open>
  \<^verbatim>\<open>process_folder\<close>. The directory is the list of its entries in the order
  \<^verbatim>\<open>os.listdir\<close> gives them; \<open>parse\<close> is the library's date parser and \<open>clock_day\<close> the
  day \<^verbatim>\<open>date.today()\<close> answers. The result is the warnings printed and the table returned
  or the error raised.
\<close>

definition process_rows ::
  "string list \<Rightarrow> string \<Rightarrow> timestamp \<Rightarrow> row list \<Rightarrow> row list" where
  "process_rows prefixes dedupe_strategy today rs =
     dedupe dedupe_strategy (filter (active_mask today) (filter (keep_mask prefixes) rs))"

definition process_folder ::
  "(cell \<Rightarrow> timestamp option) \<Rightarrow> int \<Rightarrow> workbook list \<Rightarrow> string list \<Rightarrow> string
     \<Rightarrow> string option \<Rightarrow> bool \<Rightarrow> warning list \<times> (error + frame)" where
  "process_folder parse clock_day input_dir prefixes dedupe_strategy today_override
       keep_all_columns =
     (let files = list_files input_dir in
      if files = [] then ([], Inl NoInputFiles)
      else
        (case load_files files of (warnings, frames) \<Rightarrow>
           if frames = [] then (warnings, Inl NoUsableData)
           else
             (let merged = merge_frames parse frames in
              case reference_date parse clock_day today_override of
                None \<Rightarrow> (warnings, Inl BadReferenceDate)
              | Some today \<Rightarrow>
                  (warnings,
                   Inr (select_output keep_all_columns
                          (merged\<lparr>rows := process_rows prefixes dedupe_strategy today
                                             (rows merged)\<rparr>))))))"




section \<open>Properties of the Column Matcher\<close>

lemma py_in_iff: "py_in sub s \<longleftrightarrow> (\<exists>ps ss. s = ps @ sub @ ss)"
proof (induction s)
  case Nil
  then show ?case by auto
next
  case (Cons c cs)
  have "startswith (c # cs) sub \<longleftrightarrow> (\<exists>ss. c # cs = sub @ ss)"
    unfolding startswith_def
    by (metis append_eq_conv_conj append_take_drop_id)
  moreover have "(\<exists>ps ss. c # cs = ps @ sub @ ss) \<longleftrightarrow>
      (\<exists>ss. c # cs = sub @ ss) \<or> (\<exists>ps ss. cs = ps @ sub @ ss)"
  proof
    assume "\<exists>ps ss. c # cs = ps @ sub @ ss"
    then obtain ps ss where e: "c # cs = ps @ sub @ ss" by blast
    show "(\<exists>ss. c # cs = sub @ ss) \<or> (\<exists>ps ss. cs = ps @ sub @ ss)"
    proof (cases ps)
      case Nil
      with e show ?thesis by auto
    next
      case (Cons p ps')
      with e have "cs = ps' @ sub @ ss" by simp
      then show ?thesis by blast
    qed
  next
    assume "(\<exists>ss. c # cs = sub @ ss) \<or> (\<exists>ps ss. cs = ps @ sub @ ss)"
    then show "\<exists>ps ss. c # cs = ps @ sub @ ss"
    proof
      assume "\<exists>ss. c # cs = sub @ ss"
      then obtain ss where "c # cs = [] @ sub @ ss" by auto
      then show ?thesis by blast
    next
      assume "\<exists>ps ss. cs = ps @ sub @ ss"
      then obtain ps ss where "cs = ps @ sub @ ss" by blast
      then have "c # cs = (c # ps) @ sub @ ss" by simp
      then show ?thesis by blast
    qed
  qed
  ultimately show ?case using Cons.IH by simp
qed

lemma fold_norm_map:
  "fold (\<lambda>c m. m(normalize_str c \<mapsto> c)) cols m k =
     (if k \<in> normalize_str ` set cols
      then Some (last (filter (\<lambda>c. normalize_str c = k) cols)) else m k)"
proof (induction cols arbitrary: m)
  case Nil
  then show ?case by simp
next
  case (Cons c cols)
  show ?case
  proof (cases "k \<in> normalize_str ` set cols")
    case True
    then have "filter (\<lambda>c. normalize_str c = k) cols \<noteq> []"
      by (auto simp: filter_empty_conv)
    with True Cons.IH [of "m(normalize_str c \<mapsto> c)"] show ?thesis by simp
  next
    case False
    then have "filter (\<lambda>c. normalize_str c = k) cols = []"
      by (auto simp: filter_empty_conv)
    with False Cons.IH [of "m(normalize_str c \<mapsto> c)"] show ?thesis by auto
  qed
qed

lemma norm_map_lookup:
  "norm_map cols k =
     (if k \<in> normalize_str ` set cols
      then Some (last (filter (\<lambda>c. normalize_str c = k) cols)) else None)"
  by (simp add: norm_map_def fold_norm_map)

lemma exact_pass_spec: "exact_pass (norm_map cols) cands = spec_exact_match cols cands"
  by (induction cands) (simp_all add: spec_exact_match_def norm_map_lookup)

lemma substring_pass_spec: "substring_pass cols cands = spec_substring_match cols cands"
  by (induction cols) (simp_all add: spec_substring_match_def list_ex_iff)

text \<open>
  C7. For every sequence of observed labels and every ordered candidate list,
  \<open>best_match_column\<close> is the two-pass matcher of the specification: the exact pass over
  all candidates first (last-wins map from normalized to original label, first candidate
  that hits), the substring fallback over the observed columns in their order only when no
  candidate hits exactly, and nothing when neither pass matches. The two examples of the
  specification hold.
\<close>

theorem best_match_column_two_pass:
  "best_match_column observed candidates = spec_match observed candidates
   \<and> (spec_exact_match observed candidates = None
        \<longleftrightarrow> (\<forall>cand \<in> set candidates. normalize_str cand \<notin> normalize_str ` set observed))
   \<and> (best_match_column observed candidates = None
        \<longleftrightarrow> spec_exact_match observed candidates = None
            \<and> spec_substring_match observed candidates = None)
   \<and> best_match_column [''Contract Begin Date''] [''Begin Date'', ''Contract Start Date'']
        = Some ''Contract Begin Date''
   \<and> best_match_column [''foo''] [''bar''] = None"
proof -
  have a: "best_match_column observed candidates = spec_match observed candidates"
    by (simp add: best_match_column_def spec_match_def exact_pass_spec substring_pass_spec
          split: option.splits)
  have b: "spec_exact_match observed candidates = None
        \<longleftrightarrow> (\<forall>cand \<in> set candidates. normalize_str cand \<notin> normalize_str ` set observed)"
    by (auto simp: spec_exact_match_def find_None_iff find_Some_iff split: option.splits)
  have c: "best_match_column observed candidates = None
        \<longleftrightarrow> spec_exact_match observed candidates = None
            \<and> spec_substring_match observed candidates = None"
    unfolding a spec_match_def by (simp split: option.splits)
  have d: "best_match_column [''Contract Begin Date''] [''Begin Date'', ''Contract Start Date'']
        = Some ''Contract Begin Date''"
    by code_simp
  have e: "best_match_column [''foo''] [''bar''] = None"
    by code_simp
  from a b c d e show ?thesis by blast
qed

theorem best_match_column_two_pass_witness:
  "best_match_column [''340B ID'', ''340b  id '', ''Site ID''] [''340BID'', ''340B ID'', ''ID'']
     = Some ''340b  id ''
   \<and> best_match_column [''Site ID'', ''Grid''] [''340B ID'', ''ID''] = Some ''Site ID''"
proof -
  have s1: "spec_match [''340B ID'', ''340b  id '', ''Site ID''] [''340BID'', ''340B ID'', ''ID'']
     = Some ''340b  id ''"
    by code_simp
  have s2: "spec_match [''Site ID'', ''Grid''] [''340B ID'', ''ID''] = Some ''Site ID''"
    by code_simp
  from s1 s2
    best_match_column_two_pass [of "[''340B ID'', ''340b  id '', ''Site ID'']"
      "[''340BID'', ''340B ID'', ''ID'']"]
    best_match_column_two_pass [of "[''Site ID'', ''Grid'']" "[''340B ID'', ''ID'']"]
  show ?thesis by simp
qed

section \<open>Properties of the Header Locator\<close>

lemma find_upt_Some:
  "find P [0 ..< n] = Some i \<longleftrightarrow> i < n \<and> P i \<and> (\<forall>j<i. \<not> P j)"
  by (auto simp: find_Some_iff)

lemma find_upt_None: "find P [0 ..< n] = None \<longleftrightarrow> (\<forall>i<n. \<not> P i)"
  by (auto simp: find_None_iff)

lemma find_upt_cong:
  "(\<And>i. i < n \<Longrightarrow> P i = Q i) \<Longrightarrow> find P [0 ..< n] = find Q [0 ..< n]"
  by (rule find_cong) auto

lemma is_header_row_iff:
  "is_header_row cells \<longleftrightarrow> (\<exists>v \<in> set cells. normalize_str (py_str v) = ''340b id'')"
  by (auto simp: is_header_row_def list_ex_iff)

lemma find_header_row_take:
  "15 \<le> k \<Longrightarrow> find_header_row (take k grid) = find_header_row grid"
proof -
  assume k: "15 \<le> k"
  have m: "min 15 (length (take k grid)) = min 15 (length grid)" using k by auto
  show ?thesis unfolding find_header_row_def m
    by (rule find_upt_cong) (use k in auto)
qed

text \<open>
  C8. For every grid, \<open>find_header_row\<close> answers with the index of the first row, among
  the first 15, that has a cell whose normalized text is exactly \<open>340b id\<close>; it answers
  \<open>None\<close> when no row of that window has one, whatever the later rows hold; and
  \<open>read_with_auto_header\<close>, which looks at a preview of 20 rows, then reads with header row 3.
\<close>

theorem find_header_row_first_of_15:
  "(find_header_row grid = Some i \<longleftrightarrow>
      i < 15 \<and> i < length grid \<and> is_header_row (grid ! i) \<and> (\<forall>j<i. \<not> is_header_row (grid ! j)))
   \<and> (find_header_row grid = None \<longleftrightarrow>
        (\<forall>j. j < 15 \<and> j < length grid \<longrightarrow> \<not> is_header_row (grid ! j)))
   \<and> find_header_row grid = find_header_row (take 15 grid)
   \<and> (is_header_row cells \<longleftrightarrow> (\<exists>v \<in> set cells. normalize_str (py_str v) = ''340b id''))
   \<and> hdr_idx (take 20 grid) = (case find_header_row grid of None \<Rightarrow> 3 | Some k \<Rightarrow> k)"
proof -
  have a: "find_header_row grid = Some i \<longleftrightarrow>
      i < 15 \<and> i < length grid \<and> is_header_row (grid ! i) \<and> (\<forall>j<i. \<not> is_header_row (grid ! j))"
    unfolding find_header_row_def find_upt_Some by auto
  have b: "find_header_row grid = None \<longleftrightarrow>
        (\<forall>j. j < 15 \<and> j < length grid \<longrightarrow> \<not> is_header_row (grid ! j))"
    unfolding find_header_row_def find_upt_None by auto
  have c: "find_header_row grid = find_header_row (take 15 grid)"
    by (simp add: find_header_row_take)
  have d: "hdr_idx (take 20 grid) = (case find_header_row grid of None \<Rightarrow> 3 | Some k \<Rightarrow> k)"
    by (simp add: hdr_idx_def find_header_row_take)
  from a b c d is_header_row_iff show ?thesis by blast
qed

theorem find_header_row_first_of_15_witness:
  "find_header_row [[Text ''Export''], [Blank, Blank], [Text ''Entity'', Text '' 340B  ID'']] = Some 2
   \<and> hdr_idx (take 20 [[Text ''Export''], [Text ''340BID'']]) = 3"
proof -
  let ?g = "[[Text ''Export''], [Blank, Blank], [Text ''Entity'', Text '' 340B  ID'']]"
  have h0: "\<not> is_header_row (?g ! 0)" by code_simp
  have h1: "\<not> is_header_row (?g ! 1)" by code_simp
  have h2: "is_header_row (?g ! 2)" by code_simp
  have lt: "\<forall>j<2. \<not> is_header_row (?g ! j)"
    using h0 h1 by (auto simp: less_Suc_eq numeral_2_eq_2)
  have "find_header_row ?g = Some 2"
    using find_header_row_first_of_15 [of ?g 2] h2 lt by simp
  moreover have n: "find_header_row [[Text ''Export''], [Text ''340BID'']] = None" by code_simp
  have "hdr_idx (take 20 [[Text ''Export''], [Text ''340BID'']]) = 3"
    using find_header_row_first_of_15 [of "[[Text ''Export''], [Text ''340BID'']]"] n by simp
  ultimately show ?thesis by blast
qed

section \<open>Properties of tables\<close>

lemma length_coerce_datetime [simp]: "length (coerce_datetime parse series) = length series"
  by (simp add: coerce_datetime_def)

lemma length_get_col [simp]: "length (get_col label df) = length (rows df)"
  by (simp add: get_col_def)

lemma map_zip_upd:
  "length vs = length rs \<Longrightarrow>
     map (\<lambda>r. r l') (map (\<lambda>(r, v). r(l := v)) (zip rs vs)) =
       (if l' = l then vs else map (\<lambda>r. r l') rs)"
  by (induction rs vs rule: list_induct2') auto

lemma length_rows_set_col:
  "length vals = length (rows df) \<Longrightarrow> length (rows (set_col label vals df)) = length (rows df)"
  by (simp add: set_col_def)

lemma get_col_set_col:
  "length vals = length (rows df) \<Longrightarrow>
     get_col l' (set_col l vals df) = (if l' = l then vals else get_col l' df)"
  by (simp add: get_col_def set_col_def map_zip_upd del: map_map)

lemma columns_set_col: "set (columns (set_col l vals df)) = insert l (set (columns df))"
  by (auto simp: set_col_def)

lemma root_col_merge_frames:
  "get_col ''RootID'' (merge_frames parse frames) =
     map (\<lambda>c. opt_cell (derive_root_id c)) (get_col ''ID'' (merge_frames parse frames))"
  by (simp add: merge_frames_def Let_def get_col_set_col length_rows_set_col)

section \<open>Properties of the root identifier\<close>

lemma dropWhile_fixed: "xs = [] \<or> \<not> P (hd xs) \<Longrightarrow> dropWhile P xs = xs"
  by (cases xs) auto

lemma rev_dropWhile_rev_prefix:
  "rev (dropWhile P (rev xs)) @ rev (takeWhile P (rev xs)) = xs"
proof -
  have "rev (dropWhile P ys) @ rev (takeWhile P ys) = rev ys" for ys
    by (metis rev_append takeWhile_dropWhile_id)
  from this [of "rev xs"] show ?thesis by simp
qed

lemma strip_no_leading: "strip s = [] \<or> \<not> is_space (hd (strip s))"
proof (cases "strip s = []")
  case True
  then show ?thesis by simp
next
  case False
  let ?u = "dropWhile is_space s"
  have e: "strip s @ rev (takeWhile is_space (rev ?u)) = ?u"
    unfolding strip_def by (rule rev_dropWhile_rev_prefix)
  with False have "hd (strip s) = hd ?u" by (metis hd_append2)
  moreover from e False have "?u \<noteq> []" by (metis append_is_Nil_conv)
  ultimately show ?thesis by (metis hd_dropWhile)
qed

lemma strip_no_trailing: "rev (strip s) = [] \<or> \<not> is_space (hd (rev (strip s)))"
  unfolding strip_def by (metis hd_dropWhile rev_rev_ident)

lemma strip_idem: "strip (strip s) = strip s"
proof -
  have a: "dropWhile is_space (strip s) = strip s"
    by (rule dropWhile_fixed) (rule strip_no_leading)
  have b: "dropWhile is_space (rev (strip s)) = rev (strip s)"
    by (rule dropWhile_fixed) (rule strip_no_trailing)
  have "strip (strip s) = rev (dropWhile is_space (rev (dropWhile is_space (strip s))))"
    by (simp add: strip_def)
  also have "\<dots> = strip s" by (simp add: a b)
  finally show ?thesis .
qed

lemma match_literal_eq:
  "match_literal p s =
     (if length p \<le> length s \<and> lower (take (length p) s) = lower p
      then Some (take (length p) s) else None)"
  by (induction p s rule: match_literal.induct) (auto simp: lower_def)

lemma match_branch_eq:
  "match_branch token s =
     (if spec_matches token s
      then Some (take (length token) s @ takeWhile is_digit (drop (length token) s))
      else None)"
  by (auto simp: match_branch_def match_literal_eq spec_matches_def Let_def)

lemma ROOT_ID_REGEX_eq:
  "ROOT_ID_REGEX s =
     (case find (\<lambda>token. spec_matches token s) [''DSH'', ''PED''] of
        None \<Rightarrow> None
      | Some token \<Rightarrow>
          Some (take (length token) s @ takeWhile is_digit (drop (length token) s)))"
  by (simp add: ROOT_ID_REGEX_def match_branch_eq)

lemma derive_root_id_spec: "derive_root_id c = spec_root_id [''DSH'', ''PED''] (py_str c)"
  by (simp add: derive_root_id_def extract_root_id_def spec_root_id_def strip_idem
      ROOT_ID_REGEX_eq Let_def split: option.splits)

text \<open>
  What the code computes: the derivation of the specification for the two fixed tokens DSH
  and PED, whatever prefixes are configured. In particular \<open>dsh001234\<close> gives
  \<open>DSH001234\<close>, and \<open>PED-77\<close> and \<open>XYZ123\<close> give nothing.
\<close>

lemma derive_root_id_fixed_pattern:
  "derive_root_id c = spec_root_id [''DSH'', ''PED''] (py_str c)
   \<and> get_col ''RootID'' (merge_frames parse frames) =
       map (\<lambda>c. opt_cell (spec_root_id [''DSH'', ''PED''] (py_str c)))
         (get_col ''ID'' (merge_frames parse frames))
   \<and> (derive_root_id c = None \<longleftrightarrow>
        \<not> spec_matches ''DSH'' (strip (upper (py_str c)))
        \<and> \<not> spec_matches ''PED'' (strip (upper (py_str c))))
   \<and> derive_root_id (Text ''dsh001234'') = Some ''DSH001234''
   \<and> derive_root_id (Text ''PED-77'') = None
   \<and> derive_root_id (Text ''XYZ123'') = None"
proof -
  have a: "derive_root_id c = spec_root_id [''DSH'', ''PED''] (py_str c)"
    by (rule derive_root_id_spec)
  have b: "get_col ''RootID'' (merge_frames parse frames) =
       map (\<lambda>c. opt_cell (spec_root_id [''DSH'', ''PED''] (py_str c)))
         (get_col ''ID'' (merge_frames parse frames))"
    by (simp add: root_col_merge_frames derive_root_id_spec)
  have c: "derive_root_id c = None \<longleftrightarrow>
        \<not> spec_matches ''DSH'' (strip (upper (py_str c)))
        \<and> \<not> spec_matches ''PED'' (strip (upper (py_str c)))"
    unfolding a by (simp add: spec_root_id_def Let_def)
  have d: "derive_root_id (Text ''dsh001234'') = Some ''DSH001234''" by code_simp
  have e: "derive_root_id (Text ''PED-77'') = None" by code_simp
  have f: "derive_root_id (Text ''XYZ123'') = None" by code_simp
  from a b c d e f show ?thesis by blast
qed


section \<open>Properties of the date columns\<close>






section \<open>Properties of the deduplication\<close>











lemma sort_key_pair_le:
  "((a, b) \<le> (a, c)) = (b \<le> c)" for a :: "nat \<times> string" and b :: "nat \<times> int \<times> int"
  by (simp add: less_eq_prod_def)














section \<open>Properties of the pipeline\<close>




















section \<open>Where the code departs from its documentation\<close>

text \<open>
  C1. The root identifier is to be matched against the configured prefix tokens, and the
  module documents \<^verbatim>\<open>--prefixes\<close> as the override of the identifier prefixes to keep. The
  code matches against the fixed pattern \<^verbatim>\<open>^(DSH|PED)\d+\<close> instead. On a directory with one
  workbook whose only row has the identifier \<open>CAH123\<close>, an open term date and the prefix
  \<open>CAH\<close> configured, the row is loaded with that identifier, its \<open>RootID\<close> is blank where
  the derivation for the configured token gives \<open>CAH123\<close>, and \<open>process_folder\<close> returns a
  table without rows.
\<close>

theorem process_folder_ignores_configured_prefix:
  "(let frames = snd (load_files
      [\<lparr>entry_name = ''cah.xlsx'',
        sheet = Some [[Text ''340B ID'', Text ''Begin Date'', Text ''Term Date''],
                      [Text ''CAH123'', DateTime \<lparr>day = 19723, tod = 0, tz = None\<rparr>,
                       DateTime \<lparr>day = 21915, tod = 0, tz = None\<rparr>]],
        with_header = (\<lambda>h. if h = 0
          then Some \<lparr>columns = [''340B ID'', ''Begin Date'', ''Term Date''],
                     rows = [(\<lambda>c. Blank)(''340B ID'' := Text ''CAH123'',
                        ''Begin Date'' := DateTime \<lparr>day = 19723, tod = 0, tz = None\<rparr>,
                        ''Term Date'' := DateTime \<lparr>day = 21915, tod = 0, tz = None\<rparr>)]\<rparr>
          else None)\<rparr>]);
       merged = merge_frames (\<lambda>c. None) frames
   in (get_col ''ID'' merged, get_col ''RootID'' merged, get_col ''TermDate'' merged))
     = ([Text ''CAH123''], [Blank], [DateTime \<lparr>day = 21915, tod = 0, tz = None\<rparr>])
   \<and> spec_root_id [''CAH''] ''CAH123'' = Some ''CAH123''
   \<and> (case snd (process_folder (\<lambda>c. None) 19875
      [\<lparr>entry_name = ''cah.xlsx'',
        sheet = Some [[Text ''340B ID'', Text ''Begin Date'', Text ''Term Date''],
                      [Text ''CAH123'', DateTime \<lparr>day = 19723, tod = 0, tz = None\<rparr>,
                       DateTime \<lparr>day = 21915, tod = 0, tz = None\<rparr>]],
        with_header = (\<lambda>h. if h = 0
          then Some \<lparr>columns = [''340B ID'', ''Begin Date'', ''Term Date''],
                     rows = [(\<lambda>c. Blank)(''340B ID'' := Text ''CAH123'',
                        ''Begin Date'' := DateTime \<lparr>day = 19723, tod = 0, tz = None\<rparr>,
                        ''Term Date'' := DateTime \<lparr>day = 21915, tod = 0, tz = None\<rparr>)]\<rparr>
          else None)\<rparr>]
      [''CAH''] ''latest-begin'' None False) of
     Inl e \<Rightarrow> None
   | Inr out \<Rightarrow> Some (columns out, get_col ''ID'' out))
   = Some ([''RootID'', ''ID'', ''BeginDate'', ''TermDate''], [])"
  by code_simp

text \<open>
  What the loader does keep: the number of rows, every original label, every column whose
  label is not an alias label, and the file's name in every cell of \<open>source_file\<close>.
\<close>

lemma length_rows_add_aliases:
  "length (rows (add_aliases base col_id col_begin col_term col_entity col_pharm df0))
     = length (rows df0)"
  by (simp add: add_aliases_def Let_def length_rows_set_col)

lemma add_aliases_keeps_other_columns:
  assumes "label \<notin> {''ID'', ''BeginDate'', ''TermDate'', ''EntityName'', ''PharmacyName'',
                     ''source_file''}"
  shows "get_col label (add_aliases base col_id col_begin col_term col_entity col_pharm df0)
           = get_col label df0"
  using assms by (simp add: add_aliases_def Let_def get_col_set_col length_rows_set_col)

lemma columns_add_aliases:
  "set (columns df0)
     \<subseteq> set (columns (add_aliases base col_id col_begin col_term col_entity col_pharm df0))"
  by (auto simp: add_aliases_def Let_def columns_set_col)

lemma source_file_add_aliases:
  "get_col ''source_file'' (add_aliases base col_id col_begin col_term col_entity col_pharm df0)
     = replicate (length (rows df0)) (Text base)"
  by (simp add: add_aliases_def Let_def get_col_set_col length_rows_set_col)



end
